theory Spec2Isabelle
  imports Main
begin

section \<open>Values, errors and the hashing library\<close>

text \<open>
  The blog backend is an Express application over Bookshelf models. A request body, a
  table row and the attributes of a model are all JavaScript objects; they are modelled
  as association lists from property names to values, read by first match.
\<close>

datatype jsval =
    Undefined
  | JNull
  | JBool bool
  | JNum int
  | JStr string
  | JObj "(string \<times> jsval) list"
  | JArr "jsval list"

type_synonym attrs = "(string \<times> jsval) list"

text \<open>
  What a promise can be rejected with: a \<open>TypeError\<close> of the JavaScript runtime (a
  property read on \<open>null\<close> or \<open>undefined\<close>), an error of the database driver,
  Bookshelf's complaint that an update touched no row, and an error reported by bcrypt.
  A promise is then a sum: \<open>Inl\<close> the rejection, \<open>Inr\<close> the value it resolves with.
\<close>

datatype error =
    TypeError
  | StorageFailure string
  | NoRowsUpdated
  | HashingFailure string

text \<open>\<open>obj[k]\<close> on an object literal: \<open>undefined\<close> when the key is absent.\<close>

definition js_get :: "attrs \<Rightarrow> string \<Rightarrow> jsval" where
  "js_get obj k = (case map_of obj k of None \<Rightarrow> Undefined | Some v \<Rightarrow> v)"

text \<open>\<open>model.set(k, v)\<close>: overwrite the property or add it.\<close>

fun js_set :: "string \<Rightarrow> jsval \<Rightarrow> attrs \<Rightarrow> attrs" where
  "js_set k v [] = [(k, v)]"
| "js_set k v ((k', v') # kvs) =
     (if k' = k then (k, v) # kvs else (k', v') # js_set k v kvs)"

text \<open>
  \<open>v.k\<close> on an arbitrary value: reading a property of \<open>null\<close> or \<open>undefined\<close>
  throws, an object answers from its own properties, and a primitive has none of the
  property names used in this program.
\<close>

fun js_prop :: "jsval \<Rightarrow> string \<Rightarrow> error + jsval" where
  "js_prop Undefined k = Inl TypeError"
| "js_prop JNull k = Inl TypeError"
| "js_prop (JObj kvs) k = Inr (js_get kvs k)"
| "js_prop v k = Inr Undefined"

text \<open>
  bcrypt is an npm dependency; its two entry points used by the User model are
  parameters of the model. \<open>bcrypt.hash(data, rounds, cb)\<close> draws a random salt, which
  is made an explicit first argument here, and calls back with an error or the hash
  string. \<open>bcrypt.compare(data, hash, cb)\<close> calls back with an error or a boolean.
\<close>

record bcrypt =
  bcrypt_hash :: "string \<Rightarrow> jsval \<Rightarrow> nat \<Rightarrow> error + string"
  bcrypt_compare :: "string \<Rightarrow> jsval \<Rightarrow> error + bool"

section \<open>The store\<close>

text \<open>
  The migrations create three tables with an auto-incrementing \<open>id\<close>. A table is its
  rows in insertion order and the last id handed out.
\<close>

record table =
  rows :: "attrs list"
  seq :: int

datatype tbl = Users | Posts | Comments

text \<open>
  The persistent state: the three tables and the session store of
  \<open>express-session\<close>, from session key to the bag of values kept for it.
\<close>

record db =
  users :: table
  posts :: table
  comments :: table
  sessions :: "(string \<times> attrs) list"

text \<open>
  What the surroundings contribute to one request: whether the database driver rejects
  the queries of this request (\<open>fault\<close>), the salt \<open>bcrypt.hash\<close> draws, and the
  clock read for the timestamps.
\<close>

record env =
  fault :: "error option"
  salt :: string
  now :: int

fun get_table :: "db \<Rightarrow> tbl \<Rightarrow> table" where
  "get_table st Users = users st"
| "get_table st Posts = posts st"
| "get_table st Comments = comments st"

fun put_table :: "db \<Rightarrow> tbl \<Rightarrow> table \<Rightarrow> db" where
  "put_table st Users t = st\<lparr>users := t\<rparr>"
| "put_table st Posts t = st\<lparr>posts := t\<rparr>"
| "put_table st Comments t = st\<lparr>comments := t\<rparr>"

text \<open>A Bookshelf model instance carries its attributes.\<close>

record model =
  attributes :: attrs

definition forge :: "attrs \<Rightarrow> model" where
  "forge a = \<lparr>attributes = a\<rparr>"

text \<open>
  \<open>Model.forge(criteria).fetch()\<close> selects the first row whose columns equal the forged
  attributes and resolves with a model of that row, or with \<open>null\<close> when there is
  none. A route parameter used as a criterion is given as the column value it denotes.
\<close>

definition matches :: "attrs \<Rightarrow> attrs \<Rightarrow> bool" where
  "matches criteria row = list_all (\<lambda>(k, v). js_get row k = v) criteria"

definition fetch :: "env \<Rightarrow> db \<Rightarrow> tbl \<Rightarrow> attrs \<Rightarrow> error + model option" where
  "fetch e st t criteria =
     (case fault e of
        Some err \<Rightarrow> Inl err
      | None \<Rightarrow> Inr (map_option forge (find (matches criteria) (rows (get_table st t)))))"


section \<open>The User model\<close>

text \<open>
  \<open>app/models/user.js\<close> is present in three revisions. The first and the last register
  \<open>encryptPassword\<close> on the \<open>creating\<close> event and differ in \<open>validatePassword\<close>:
  an arrow function in the first, a function expression in the last, which is also the
  one the README gives. The second revision is the model before either was added.

  The receiver of a method call is a model instance or some other object; the only other
  object that occurs is the \<open>exports\<close> object of the module, which is what \<open>this\<close>
  denotes at the top level of \<open>user.js\<close> and hence inside its arrow functions.
\<close>

datatype jsobject = Model model | PlainObject attrs

fun self_attributes :: "jsobject \<Rightarrow> jsval" where
  "self_attributes (Model m) = JObj (attributes m)"
| "self_attributes (PlainObject props) = js_get props ''attributes''"

definition module_this :: jsobject where
  "module_this = PlainObject []"

text \<open>
  \<open>encryptPassword(model, attrs, options)\<close>: hash \<open>model.attributes.password\<close> with
  cost 10; reject with bcrypt's error, or set the hash on the model and resolve with it.
  The updated model is returned beside the hash.
\<close>

definition encryptPassword :: "bcrypt \<Rightarrow> env \<Rightarrow> model \<Rightarrow> error + (model \<times> string)" where
  "encryptPassword bc e m =
     (case bcrypt_hash bc (salt e) (js_get (attributes m) ''password'') 10 of
        Inl err \<Rightarrow> Inl err
      | Inr h \<Rightarrow> Inr (m\<lparr>attributes := js_set ''password'' (JStr h) (attributes m)\<rparr>, h))"

text \<open>
  The hash that \<open>validatePassword\<close> reads, \<open>self.attributes.password\<close>, in both
  revisions. A throw inside the promise executor rejects the promise.
\<close>

definition stored_hash :: "jsobject \<Rightarrow> error + jsval" where
  "stored_hash self = js_prop (self_attributes self) ''password''"

definition validatePassword_arrow :: "bcrypt \<Rightarrow> jsobject \<Rightarrow> string \<Rightarrow> error + bool" where
  "validatePassword_arrow bc receiver suppliedPassword =
     (let self = module_this in
      case stored_hash self of
        Inl err \<Rightarrow> Inl err
      | Inr h \<Rightarrow> bcrypt_compare bc suppliedPassword h)"

definition validatePassword :: "bcrypt \<Rightarrow> jsobject \<Rightarrow> string \<Rightarrow> error + bool" where
  "validatePassword bc receiver suppliedPassword =
     (let self = receiver in
      case stored_hash self of
        Inl err \<Rightarrow> Inl err
      | Inr h \<Rightarrow> bcrypt_compare bc suppliedPassword h)"

section \<open>The Passport local strategy\<close>

text \<open>
  The verify callback reports through \<open>done\<close>: \<open>done(null, usr)\<close>,
  \<open>done(null, false)\<close> or \<open>done(err)\<close>. The model returns the calls of \<open>done\<close> in
  order. An object is truthy, \<open>null\<close> is not.

  In the \<open>then\<close> callback a found user leads to \<open>done(null, false)\<close> at once. Otherwise
  \<open>usr.validatePassword\<close> is read: on \<open>null\<close> that throws, and the throw reaches the
  \<open>catch\<close>. The promise of \<open>validatePassword\<close> is not returned from the callback, so
  its rejection would reach no handler and \<open>done\<close> would not be called.
\<close>

datatype outcome = Authenticated model | Rejected | Errored error

definition truthy :: "model option \<Rightarrow> bool" where
  "truthy usr = (usr \<noteq> None)"

definition local_strategy ::
  "(bcrypt \<Rightarrow> jsobject \<Rightarrow> string \<Rightarrow> error + bool) \<Rightarrow> bcrypt \<Rightarrow> env \<Rightarrow> db \<Rightarrow> string \<Rightarrow> string
     \<Rightarrow> outcome list" where
  "local_strategy validate bc e st username password =
     (case fetch e st Users [(''username'', JStr username)] of
        Inl err \<Rightarrow> [Errored err]
      | Inr usr \<Rightarrow>
          if truthy usr then [Rejected]
          else (case usr of
                  None \<Rightarrow> [Errored TypeError]
                | Some u \<Rightarrow>
                    (case validate bc (Model u) password of
                       Inl err \<Rightarrow> []
                     | Inr valid \<Rightarrow> if \<not> valid then [Rejected] else [Authenticated u])))"

text \<open>
  The same callback with the errors raised on the way: the rejection of \<open>fetch\<close>, the
  throw of the method call on \<open>null\<close>, and the rejection of \<open>validatePassword\<close>, each
  with the step that raised it, beside the calls of \<open>done\<close>.
\<close>

datatype step = Lookup | MethodCall | Verify

definition strategy_run ::
  "(bcrypt \<Rightarrow> jsobject \<Rightarrow> string \<Rightarrow> error + bool) \<Rightarrow> bcrypt \<Rightarrow> env \<Rightarrow> db \<Rightarrow> string \<Rightarrow> string
     \<Rightarrow> (step \<times> error) list \<times> outcome list" where
  "strategy_run validate bc e st username password =
     (case fetch e st Users [(''username'', JStr username)] of
        Inl err \<Rightarrow> ([(Lookup, err)], [Errored err])
      | Inr usr \<Rightarrow>
          if truthy usr then ([], [Rejected])
          else (case usr of
                  None \<Rightarrow> ([(MethodCall, TypeError)], [Errored TypeError])
                | Some u \<Rightarrow>
                    (case validate bc (Model u) password of
                       Inl err \<Rightarrow> ([(Verify, err)], [])
                     | Inr valid \<Rightarrow> ([], if \<not> valid then [Rejected] else [Authenticated u]))))"

section \<open>Saving a model\<close>

text \<open>
  A model class is its table, whether it keeps timestamps, and the listeners its
  \<open>initialize\<close> registers on the \<open>creating\<close> event. A listener returns a promise;
  its resolution value is ignored by Bookshelf, its rejection aborts the save.
\<close>

type_synonym listener = "bcrypt \<Rightarrow> env \<Rightarrow> model \<Rightarrow> error + (model \<times> string)"

record model_class =
  tableName :: tbl
  hasTimestamps :: bool
  creating :: "listener list"

definition User :: model_class where
  "User = \<lparr>tableName = Users, hasTimestamps = True, creating = [encryptPassword]\<rparr>"

definition Post :: model_class where
  "Post = \<lparr>tableName = Posts, hasTimestamps = True, creating = []\<rparr>"

definition Comment :: model_class where
  "Comment = \<lparr>tableName = Comments, hasTimestamps = True, creating = []\<rparr>"

fun triggerThen :: "listener list \<Rightarrow> bcrypt \<Rightarrow> env \<Rightarrow> model \<Rightarrow> error + model" where
  "triggerThen [] bc e m = Inr m"
| "triggerThen (l # ls) bc e m =
     (case l bc e m of
        Inl err \<Rightarrow> Inl err
      | Inr (m', resolved) \<Rightarrow> triggerThen ls bc e m')"

text \<open>\<open>model.isNew()\<close>: the id is \<open>null\<close> or absent.\<close>

definition isNew :: "model \<Rightarrow> bool" where
  "isNew m = (js_get (attributes m) ''id'' = Undefined \<or> js_get (attributes m) ''id'' = JNull)"

definition timestamp :: "model_class \<Rightarrow> env \<Rightarrow> model \<Rightarrow> model" where
  "timestamp cls e m =
     (if hasTimestamps cls then
        (let a = js_set ''updated_at'' (JNum (now e)) (attributes m)
         in m\<lparr>attributes := (if isNew m then js_set ''created_at'' (JNum (now e)) a else a)\<rparr>)
      else m)"

text \<open>The insert appends the row under the next id and answers with that id.\<close>

definition insert_row :: "env \<Rightarrow> db \<Rightarrow> tbl \<Rightarrow> attrs \<Rightarrow> db \<times> (error + int)" where
  "insert_row e st t a =
     (case fault e of
        Some err \<Rightarrow> (st, Inl err)
      | None \<Rightarrow>
          (let tb = get_table st t; i = seq tb + 1
           in (put_table st t \<lparr>rows = rows tb @ [js_set ''id'' (JNum i) a], seq = i\<rparr>, Inr i)))"

text \<open>The update overwrites the columns of the rows with the given id and counts them.\<close>

definition merge :: "attrs \<Rightarrow> attrs \<Rightarrow> attrs" where
  "merge a row = fold (\<lambda>(k, v). js_set k v) a row"

definition update_rows :: "env \<Rightarrow> db \<Rightarrow> tbl \<Rightarrow> jsval \<Rightarrow> attrs \<Rightarrow> db \<times> (error + nat)" where
  "update_rows e st t i a =
     (case fault e of
        Some err \<Rightarrow> (st, Inl err)
      | None \<Rightarrow>
          (let tb = get_table st t; hit = (\<lambda>r. js_get r ''id'' = i)
           in (put_table st t (tb\<lparr>rows := map (\<lambda>r. if hit r then merge a r else r) (rows tb)\<rparr>),
               Inr (length (filter hit (rows tb))))))"

text \<open>
  \<open>model.save()\<close>: a new model is stamped, passed to the \<open>creating\<close> listeners, and
  the attributes they leave are inserted; a model with an id is written as an update,
  without the \<open>creating\<close> event, and an update of no row is an error.
\<close>

definition save :: "model_class \<Rightarrow> bcrypt \<Rightarrow> env \<Rightarrow> db \<Rightarrow> model \<Rightarrow> db \<times> (error + model)" where
  "save cls bc e st m0 =
     (let m = timestamp cls e m0 in
      if isNew m0 then
        (case triggerThen (creating cls) bc e m of
           Inl err \<Rightarrow> (st, Inl err)
         | Inr m' \<Rightarrow>
             (case insert_row e st (tableName cls) (attributes m') of
                (st', Inl err) \<Rightarrow> (st', Inl err)
              | (st', Inr i) \<Rightarrow>
                  (st', Inr (m'\<lparr>attributes := js_set ''id'' (JNum i) (attributes m')\<rparr>))))
      else
        (case update_rows e st (tableName cls) (js_get (attributes m) ''id'') (attributes m) of
           (st', Inl err) \<Rightarrow> (st', Inl err)
         | (st', Inr n) \<Rightarrow> if n = 0 then (st', Inl NoRowsUpdated) else (st', Inr m)))"

section \<open>The routes\<close>

text \<open>
  A handler answers through \<open>res.sendStatus\<close> and \<open>res.send\<close>; the model returns the
  new store and the responses sent, in order. A model is sent as the JSON of its
  attributes, a collection as the array of its models.
\<close>

datatype response = SendStatus nat | Send jsval

definition toJSON :: "model \<Rightarrow> jsval" where
  "toJSON m = JObj (attributes m)"

text \<open>
  \<open>_.isEmpty\<close> is applied to a parsed request body, which is empty when it has no
  keys, and to the result of \<open>fetch\<close>, which is empty when it is \<open>null\<close>: a model
  instance always has properties of its own.
\<close>

definition isEmpty_body :: "attrs \<Rightarrow> bool" where
  "isEmpty_body body = (body = [])"

definition isEmpty_model :: "model option \<Rightarrow> bool" where
  "isEmpty_model m = (m = None)"

definition send_model :: "model option \<Rightarrow> response" where
  "send_model m = Send (case m of None \<Rightarrow> JNull | Some u \<Rightarrow> toJSON u)"

definition get_user :: "env \<Rightarrow> db \<Rightarrow> jsval \<Rightarrow> db \<times> response list" where
  "get_user e st i =
     (case fetch e st Users [(''id'', i)] of
        Inl err \<Rightarrow> (st, [SendStatus 500])
      | Inr usr \<Rightarrow>
          if isEmpty_model usr then (st, [SendStatus 404])
          else (st, [send_model usr]))"


definition send_id :: "model \<Rightarrow> response" where
  "send_id m = Send (JObj [(''id'', js_get (attributes m) ''id'')])"

definition post_record :: "model_class \<Rightarrow> bcrypt \<Rightarrow> env \<Rightarrow> db \<Rightarrow> attrs \<Rightarrow> db \<times> response list" where
  "post_record cls bc e st body =
     (if isEmpty_body body then (st, [SendStatus 400])
      else (case save cls bc e st (forge body) of
              (st', Inl err) \<Rightarrow> (st', [SendStatus 500])
            | (st', Inr m) \<Rightarrow> (st', [send_id m])))"

definition post_user :: "bcrypt \<Rightarrow> env \<Rightarrow> db \<Rightarrow> attrs \<Rightarrow> db \<times> response list" where
  "post_user = post_record User"

definition post_post :: "bcrypt \<Rightarrow> env \<Rightarrow> db \<Rightarrow> attrs \<Rightarrow> db \<times> response list" where
  "post_post = post_record Post"

definition post_comment :: "bcrypt \<Rightarrow> env \<Rightarrow> db \<Rightarrow> attrs \<Rightarrow> db \<times> response list" where
  "post_comment = post_record Comment"







section \<open>Sample data\<close>

text \<open>
  Concrete inputs on which the model is run. \<open>sample_bcrypt\<close> has the calling
  conventions of bcrypt and none of its cryptography: the hash of a string is the salt,
  a dollar sign and the string; \<open>compare\<close> accepts a hash that ends so; both report an
  error on a value that is not a string. The sample store holds \<open>alice\<close>, whose stored
  hash is that of \<open>correct\<close>, and \<open>carol\<close>, a row from before the migration that
  added the password column; \<open>blog_db\<close> adds a post written by \<open>alice\<close>.
\<close>

definition sample_bcrypt :: bcrypt where
  "sample_bcrypt =
     \<lparr>bcrypt_hash = (\<lambda>s data rounds.
        case data of JStr p \<Rightarrow> Inr (s @ ''$'' @ p) | _ \<Rightarrow> Inl (HashingFailure ''data must be a string'')),
      bcrypt_compare = (\<lambda>p h.
        case h of JStr hs \<Rightarrow> Inr (drop (length hs - Suc (length p)) hs = ''$'' @ p)
        | _ \<Rightarrow> Inl (HashingFailure ''hash must be a string''))\<rparr>"

definition sample_env :: env where
  "sample_env = \<lparr>fault = None, salt = ''N9qo8uLOickgx2ZMRZoMye'', now = 1464000000\<rparr>"

definition failing_env :: env where
  "failing_env = sample_env\<lparr>fault := Some (StorageFailure ''connection refused'')\<rparr>"

definition alice_row :: attrs where
  "alice_row = [(''id'', JNum 1), (''username'', JStr ''alice''),
     (''password'', JStr ''N9qo8uLOickgx2ZMRZoMye$correct'')]"

definition carol_row :: attrs where
  "carol_row = [(''id'', JNum 2), (''username'', JStr ''carol''), (''password'', JNull)]"

definition empty_db :: db where
  "empty_db = \<lparr>users = \<lparr>rows = [], seq = 0\<rparr>, posts = \<lparr>rows = [], seq = 0\<rparr>,
     comments = \<lparr>rows = [], seq = 0\<rparr>, sessions = []\<rparr>"

definition sample_db :: db where
  "sample_db = empty_db\<lparr>users := \<lparr>rows = [alice_row, carol_row], seq = 2\<rparr>\<rparr>"




section \<open>Basic facts\<close>

lemmas sample_defs = sample_bcrypt_def sample_env_def alice_row_def carol_row_def
  empty_db_def sample_db_def



lemma matches_single: "matches [(k, v)] = (\<lambda>row. js_get row k = v)"
  by (rule ext) (simp add: matches_def)

lemma fetch_username:
  "fetch e st Users [(''username'', JStr u)] =
     (case fault e of
        Some err \<Rightarrow> Inl err
      | None \<Rightarrow> Inr (map_option forge (find (\<lambda>row. js_get row ''username'' = JStr u) (rows (users st)))))"
  by (simp add: fetch_def matches_single split: option.splits)

lemma fetch_id:
  "fetch e st Users [(''id'', i)] =
     (case fault e of
        Some err \<Rightarrow> Inl err
      | None \<Rightarrow> Inr (map_option forge (find (\<lambda>row. js_get row ''id'' = i) (rows (users st)))))"
  by (simp add: fetch_def matches_single split: option.splits)

section \<open>The local strategy\<close>

text \<open>
  What the verify callback reports, case by case: the driver's error when the lookup is
  rejected, a \<open>TypeError\<close> when no row has the username, and a rejection whenever a row
  has it. The password is not looked at in any case.
\<close>

lemma local_strategy_outcome:
  "local_strategy validate bc e st username password =
     (case fault e of
        Some err \<Rightarrow> [Errored err]
      | None \<Rightarrow>
          (case find (\<lambda>row. js_get row ''username'' = JStr username) (rows (users st)) of
             None \<Rightarrow> [Errored TypeError]
           | Some row \<Rightarrow> [Rejected]))"
  by (simp add: local_strategy_def fetch_username truthy_def split: option.splits)

lemma strategy_propagates_lookup_error:
  "fault e = Some err \<Longrightarrow> local_strategy validate bc e st username password = [Errored err]"
  by (simp add: local_strategy_outcome)

text \<open>
  C1. A login whose username is in the store and whose password verifies against the
  stored hash is to end in \<open>done(null, usr)\<close> with that user. Run on the sample store,
  the lookup of \<open>alice\<close> finds her row and \<open>correct\<close> verifies against her hash, yet
  the callback reports \<open>done(null, false)\<close>: the test on the fetched user is
  \<open>if (usr)\<close> where the README has \<open>if (!usr)\<close>.
\<close>

theorem strategy_rejects_matching_password:
  "fetch sample_env sample_db Users [(''username'', JStr ''alice'')] = Inr (Some (forge alice_row))
   \<and> validatePassword sample_bcrypt (Model (forge alice_row)) ''correct'' = Inr True
   \<and> local_strategy validatePassword sample_bcrypt sample_env sample_db ''alice'' ''correct''
       = [Rejected]"
  by (simp add: local_strategy_outcome fetch_username validatePassword_def stored_hash_def
      forge_def js_get_def sample_defs)

text \<open>
  C2. A login whose username is not in the store is to end in \<open>done(null, false)\<close>,
  the same outcome as a wrong password. Run on the sample store, the lookup of
  \<open>nobody\<close> resolves with \<open>null\<close> and the callback reports \<open>done(err)\<close> with the
  \<open>TypeError\<close> of calling a method on \<open>null\<close>, while a wrong password for \<open>alice\<close>
  is reported as \<open>done(null, false)\<close>: the two outcomes differ.
\<close>

theorem strategy_errors_on_unknown_user:
  "fetch sample_env sample_db Users [(''username'', JStr ''nobody'')] = Inr None
   \<and> local_strategy validatePassword sample_bcrypt sample_env sample_db ''nobody'' ''secret''
       = [Errored TypeError]
   \<and> validatePassword sample_bcrypt (Model (forge alice_row)) ''wrong'' = Inr False
   \<and> local_strategy validatePassword sample_bcrypt sample_env sample_db ''alice'' ''wrong''
       = [Rejected]"
  by (simp add: local_strategy_outcome fetch_username validatePassword_def stored_hash_def
      forge_def js_get_def sample_defs)


lemma strategy_run_raised:
  "fst (strategy_run validate bc e st username password) =
     (case fault e of
        Some err \<Rightarrow> [(Lookup, err)]
      | None \<Rightarrow>
          (case find (\<lambda>row. js_get row ''username'' = JStr username) (rows (users st)) of
             None \<Rightarrow> [(MethodCall, TypeError)]
           | Some row \<Rightarrow> []))"
  by (simp add: strategy_run_def fetch_username truthy_def split: option.splits)

lemma verification_is_never_reached:
  "(Verify, err) \<notin> set (fst (strategy_run validate bc e st username password))"
  by (simp add: strategy_run_raised split: option.splits)



section \<open>The two revisions of \<open>validatePassword\<close>\<close>

text \<open>
  C5. In the arrow-function revision, \<open>self = this\<close> is the \<open>exports\<close> object of the
  module, which has no \<open>attributes\<close>: reading \<open>self.attributes.password\<close> throws, so
  for every model and every supplied password the promise is rejected with a
  \<open>TypeError\<close>, whatever bcrypt would answer, and no comparison with the model's hash
  takes place. In the function revision \<open>self\<close> is the model, the hash read is its
  \<open>password\<close> attribute, and the result is that of \<open>bcrypt.compare\<close> on it.
\<close>

theorem arrow_validatePassword_never_reads_model:
  "stored_hash module_this = Inl TypeError
   \<and> validatePassword_arrow bc (Model m) suppliedPassword = Inl TypeError
   \<and> stored_hash (Model m) = Inr (js_get (attributes m) ''password'')
   \<and> validatePassword bc (Model m) suppliedPassword
       = bcrypt_compare bc suppliedPassword (js_get (attributes m) ''password'')"
  by (simp add: validatePassword_arrow_def validatePassword_def stored_hash_def module_this_def
      js_get_def)

section \<open>Creating a user\<close>





section \<open>Responses and session state\<close>















section \<open>Status codes\<close>

text \<open>
  C9. A \<open>POST\<close> to \<open>/user\<close>, \<open>/post\<close> or \<open>/comment\<close> with an empty body is
  answered with status 400 and nothing else, and the store is left as it was.
\<close>

theorem empty_body_answers_400_without_write:
  "isEmpty_body body \<Longrightarrow>
     post_user bc e st body = (st, [SendStatus 400])
     \<and> post_post bc e st body = (st, [SendStatus 400])
     \<and> post_comment bc e st body = (st, [SendStatus 400])"
  by (simp add: post_user_def post_post_def post_comment_def post_record_def)

theorem empty_body_answers_400_without_write_witness:
  "isEmpty_body []
   \<and> post_user sample_bcrypt sample_env sample_db [] = (sample_db, [SendStatus 400])
   \<and> post_post sample_bcrypt sample_env sample_db [] = (sample_db, [SendStatus 400])
   \<and> post_comment sample_bcrypt sample_env sample_db [] = (sample_db, [SendStatus 400])"
proof -
  have h: "isEmpty_body []"
    by (simp add: isEmpty_body_def)
  show ?thesis
    using h empty_body_answers_400_without_write [OF h, of sample_bcrypt sample_env sample_db]
    by simp
qed

text \<open>
  C10. \<open>GET /user/:id\<close> answers 500 when the lookup is rejected, 404 when no user row
  has the id, and otherwise sends the row found; in every case exactly one response is
  sent, and the store is unchanged.
\<close>

theorem get_user_one_response:
  "(fault e = Some err \<longrightarrow> snd (get_user e st i) = [SendStatus 500])
   \<and> (fault e = None \<and> find (\<lambda>r. js_get r ''id'' = i) (rows (users st)) = None
        \<longrightarrow> snd (get_user e st i) = [SendStatus 404])
   \<and> (fault e = None \<and> find (\<lambda>r. js_get r ''id'' = i) (rows (users st)) = Some row
        \<longrightarrow> snd (get_user e st i) = [Send (JObj row)])
   \<and> length (snd (get_user e st i)) = 1
   \<and> fst (get_user e st i) = st"
  by (simp add: get_user_def fetch_id isEmpty_model_def send_model_def toJSON_def forge_def
      split: option.splits)

theorem get_user_one_response_witness:
  "fault failing_env = Some (StorageFailure ''connection refused'')
   \<and> snd (get_user failing_env sample_db (JNum 1)) = [SendStatus 500]
   \<and> fault sample_env = None
   \<and> find (\<lambda>r. js_get r ''id'' = JNum 7) (rows (users sample_db)) = None
   \<and> snd (get_user sample_env sample_db (JNum 7)) = [SendStatus 404]
   \<and> find (\<lambda>r. js_get r ''id'' = JNum 1) (rows (users sample_db)) = Some alice_row
   \<and> snd (get_user sample_env sample_db (JNum 1)) = [Send (JObj alice_row)]"
proof -
  have a: "fault failing_env = Some (StorageFailure ''connection refused'')"
    by (simp add: failing_env_def)
  have b: "fault sample_env = None"
    by (simp add: sample_env_def)
  have c: "find (\<lambda>r. js_get r ''id'' = JNum 7) (rows (users sample_db)) = None"
    by (simp add: sample_defs js_get_def)
  have d: "find (\<lambda>r. js_get r ''id'' = JNum 1) (rows (users sample_db)) = Some alice_row"
    by (simp add: sample_defs js_get_def)
  show ?thesis
    using a b c d
      get_user_one_response [of failing_env "StorageFailure ''connection refused''" sample_db "JNum 1"]
      get_user_one_response [of sample_env _ sample_db "JNum 7"]
      get_user_one_response [of sample_env _ sample_db "JNum 1" alice_row]
    by simp
qed

end
